theory Spec2Isabelle
  imports Complex_Main "HOL-Library.Multiset"
begin

section \<open>Exceptions as values\<close>

text \<open>
  Every exception the program can meet is a subclass of Python's \<open>Exception\<close>; the
  model keeps the class and the message, and \<open>str_exc\<close> is what an f-string prints for
  it. A function that can raise returns \<open>pyexc + 'a\<close>, with \<open>Inl\<close> for the raise.
\<close>

datatype exc_class = Exception | AttributeError | OSError | ValueError | IndexError

datatype pyexc = Raise exc_class string

fun str_exc :: "pyexc \<Rightarrow> string" where
  "str_exc (Raise c m) = m"

text \<open>A name between apostrophes, as the interpreter's messages print it.\<close>

definition quoted :: "string \<Rightarrow> string" where
  "quoted s = [CHR 0x27] @ s @ [CHR 0x27]"

definition and_then :: "pyexc + 'a \<Rightarrow> ('a \<Rightarrow> pyexc + 'b) \<Rightarrow> pyexc + 'b" where
  "and_then r f = (case r of Inl e \<Rightarrow> Inl e | Inr v \<Rightarrow> f v)"

section \<open>The bounds resolver (get_geotiff_bounds)\<close>

text \<open>
  What the raster library hands back for an opened file: the six coefficients of
  \<open>GetGeoTransform\<close>, the raster size, and the two questions the code asks of the spatial
  reference built from \<open>GetProjection\<close>. \<open>GetAuthorityCode\<close> may raise, return
  \<open>None\<close> or return the code as a string. Coordinates are exact reals: the rounding of
  the interpreter's double-precision floats is not modelled.
\<close>

record geotransform =
  gt0 :: real
  gt1 :: real
  gt2 :: real
  gt3 :: real
  gt4 :: real
  gt5 :: real

record dataset =
  GetGeoTransform :: geotransform
  RasterXSize :: int
  RasterYSize :: int
  IsProjected :: bool
  GetAuthorityCode :: "pyexc + string option"

type_synonym gdal_open = "string \<Rightarrow> dataset option"

type_synonym transform_point = "real \<Rightarrow> real \<Rightarrow> pyexc + real \<times> real \<times> real"

text \<open>Lines 77-82: top-left, top-right, bottom-left, bottom-right.\<close>

definition corners :: "dataset \<Rightarrow> (real \<times> real) list" where
  "corners ds =
     (let gt = GetGeoTransform ds; cols = real_of_int (RasterXSize ds);
          rows = real_of_int (RasterYSize ds)
      in [(gt0 gt, gt3 gt),
          (gt0 gt + cols * gt1 gt, gt3 gt),
          (gt0 gt, gt3 gt + rows * gt5 gt),
          (gt0 gt + cols * gt1 gt, gt3 gt + rows * gt5 gt)])"

text \<open>Lines 86-91: the code is looked up only for a projected system; a raise gives None.\<close>

definition epsg :: "dataset \<Rightarrow> string option" where
  "epsg ds =
     (if IsProjected ds
      then (case GetAuthorityCode ds of Inl e \<Rightarrow> None | Inr c \<Rightarrow> c)
      else None)"

text \<open>
  Lines 101-103: the code names the first two components of \<open>TransformPoint\<close>'s result
  \<open>lon\<close> and \<open>lat\<close>, and appends the pair \<open>(lon, lat)\<close>.
\<close>

fun transform_corners :: "transform_point \<Rightarrow> (real \<times> real) list \<Rightarrow> pyexc + (real \<times> real) list" where
  "transform_corners ct [] = Inr []"
| "transform_corners ct ((x, y) # cs) =
     (case ct x y of
        Inl e \<Rightarrow> Inl e
      | Inr (lon, lat, z) \<Rightarrow>
          (case transform_corners ct cs of
             Inl e \<Rightarrow> Inl e
           | Inr latlons \<Rightarrow> Inr ((lon, lat) # latlons)))"

text \<open>Lines 106-107: the other branch appends \<open>(y, x)\<close>.\<close>

definition passthrough_corners :: "(real \<times> real) list \<Rightarrow> (real \<times> real) list" where
  "passthrough_corners cs = map (\<lambda>(x, y). (y, x)) cs"

text \<open>Python's \<open>max\<close> and \<open>min\<close> of a list raise ValueError on the empty list.\<close>

fun py_max :: "real list \<Rightarrow> pyexc + real" where
  "py_max [] = Inl (Raise ValueError ''max() arg is an empty sequence'')"
| "py_max (x # xs) = Inr (fold max xs x)"

fun py_min :: "real list \<Rightarrow> pyexc + real" where
  "py_min [] = Inl (Raise ValueError ''min() arg is an empty sequence'')"
| "py_min (x # xs) = Inr (fold min xs x)"

text \<open>Lines 110-116: both comprehensions read each pair as \<open>(lat, lon)\<close>.\<close>

definition latlon_box :: "(real \<times> real) list \<Rightarrow> pyexc + real \<times> real \<times> real \<times> real" where
  "latlon_box latlons =
     (let lats = map (\<lambda>(lat, lon). lat) latlons;
          lons = map (\<lambda>(lat, lon). lon) latlons
      in and_then (py_max lats) (\<lambda>north.
         and_then (py_min lats) (\<lambda>south.
         and_then (py_max lons) (\<lambda>east.
         and_then (py_min lons) (\<lambda>west.
         Inr (north, south, east, west))))))"

text \<open>
  \<open>gdal.Open\<close> returns None for a file it cannot open; line 72 then reads an
  attribute of None, which raises AttributeError.
\<close>

definition get_geotiff_bounds ::
    "gdal_open \<Rightarrow> transform_point \<Rightarrow> string \<Rightarrow> pyexc + real \<times> real \<times> real \<times> real" where
  "get_geotiff_bounds opn ct tiff_path =
     (case opn tiff_path of
        None \<Rightarrow>
          Inl (Raise AttributeError
                 (quoted ''NoneType'' @ '' object has no attribute '' @ quoted ''GetGeoTransform''))
      | Some ds \<Rightarrow>
          and_then
            (if epsg ds = Some ''3857''
             then transform_corners ct (corners ds)
             else Inr (passthrough_corners (corners ds)))
            latlon_box)"

section \<open>Strings and paths\<close>

text \<open>
  The program's strings are modelled as lists of bytes, with \<open>str.lower\<close> acting on the
  ASCII capitals. The path functions follow \<open>posixpath\<close> and \<open>genericpath\<close> of
  the interpreter's library, which the source calls through \<open>os.path\<close>.
\<close>

definition lower_char :: "char \<Rightarrow> char" where
  "lower_char c =
     (case map_of (zip ''ABCDEFGHIJKLMNOPQRSTUVWXYZ'' ''abcdefghijklmnopqrstuvwxyz'') c of
        Some l \<Rightarrow> l
      | None \<Rightarrow> c)"

definition lower :: "string \<Rightarrow> string" where
  "lower s = map lower_char s"

definition endswith :: "string \<Rightarrow> string \<Rightarrow> bool" where
  "endswith s suf = (length suf \<le> length s \<and> drop (length s - length suf) s = suf)"

definition startswith :: "string \<Rightarrow> string \<Rightarrow> bool" where
  "startswith s pre = (take (length pre) s = pre)"

text \<open>\<open>str.rfind\<close> for a single character: the last index, or -1.\<close>

fun rfind :: "string \<Rightarrow> char \<Rightarrow> int" where
  "rfind [] c = - 1"
| "rfind (x # xs) c =
     (let r = rfind xs c in if 0 \<le> r then r + 1 else if x = c then 0 else - 1)"

text \<open>
  \<open>genericpath._splitext\<close>: the extension starts at the last dot after the last
  separator, unless every character between the separator and that dot is a dot.
\<close>

definition splitext :: "string \<Rightarrow> string \<times> string" where
  "splitext p =
     (let sepIndex = rfind p CHR ''/''; dotIndex = rfind p CHR ''.''
      in if sepIndex < dotIndex \<and>
            list_ex (\<lambda>c. c \<noteq> CHR ''.'')
              (drop (nat (sepIndex + 1)) (take (nat dotIndex) p))
         then (take (nat dotIndex) p, drop (nat dotIndex) p)
         else (p, []))"

definition basename :: "string \<Rightarrow> string" where
  "basename p = drop (nat (rfind p CHR ''/'' + 1)) p"

text \<open>\<open>posixpath.join\<close> of two paths.\<close>

definition join :: "string \<Rightarrow> string \<Rightarrow> string" where
  "join a b =
     (if startswith b ''/'' then b
      else if a = [] \<or> endswith a ''/'' then a @ b
      else a @ ''/'' @ b)"

text \<open>Decimal digits of a natural number, as an f-string prints an int that is not negative.\<close>

definition digit :: "nat \<Rightarrow> char" where
  "digit d = ''0123456789'' ! d"

fun str_nat :: "nat \<Rightarrow> string" where
  "str_nat n = (if n < 10 then [digit n] else str_nat (n div 10) @ [digit (n mod 10)])"

declare str_nat.simps [simp del]

section \<open>The file system and the collaborators\<close>

text \<open>
  The file system holds regular files, archives and directories under their path
  strings. Two spellings of one path are two entries: the model does not normalise.
\<close>

datatype compression = ZIP_STORED | ZIP_DEFLATED

record zip_entry =
  arcname :: string
  compress_type :: compression
  payload :: string

record fs =
  files :: "string \<rightharpoonup> string"
  archives :: "string \<rightharpoonup> zip_entry list"
  dirs :: "string set"

text \<open>
  What one call meets outside the program: the raster library, the image library, the
  operating system's refusals and the directory tree under a path. \<open>gdal_Translate\<close>
  raises, returns without writing, or gives the bytes of the image it wrote;
  \<open>gdal_sidecars\<close> are the files the raster library leaves beside a source it reads;
  \<open>float_str\<close> is the text an f-string gives a float.
\<close>

datatype tree = Dir "(string \<times> tree) list" "string list"

record world =
  gdal_Open :: gdal_open
  gdal_Translate :: "string \<Rightarrow> nat \<Rightarrow> pyexc + string option"
  gdal_sidecars :: "string \<Rightarrow> (string \<times> string) list"
  pillow_quantize :: "string \<Rightarrow> nat \<Rightarrow> pyexc + string"
  TransformPoint :: transform_point
  float_str :: "real \<Rightarrow> string"
  write_error :: "string \<Rightarrow> pyexc option"
  remove_error :: "string \<Rightarrow> pyexc option"
  makedirs_error :: "string \<Rightarrow> pyexc option"
  mkdtemp :: "pyexc + string"
  rmtree_error :: "pyexc option"
  listing :: "string \<Rightarrow> tree option"

type_synonym 'a action = "fs \<Rightarrow> (pyexc + 'a) \<times> fs"

text \<open>One statement after another in a block that can raise: the first raise ends the block.\<close>

definition seq :: "'a action \<Rightarrow> ('a \<Rightarrow> 'b action) \<Rightarrow> 'b action" where
  "seq m f s = (case m s of (Inl e, s') \<Rightarrow> (Inl e, s') | (Inr v, s') \<Rightarrow> f v s')"

definition no_such_file :: "string \<Rightarrow> pyexc" where
  "no_such_file p = Raise OSError (''[Errno 2] No such file or directory: '' @ quoted p)"

definition exists_path :: "fs \<Rightarrow> string \<Rightarrow> bool" where
  "exists_path s p = (files s p \<noteq> None \<or> archives s p \<noteq> None \<or> p \<in> dirs s)"

definition write_file :: "string \<Rightarrow> string \<Rightarrow> fs \<Rightarrow> fs" where
  "write_file p bytes s = s\<lparr>files := (files s)(p \<mapsto> bytes), archives := (archives s)(p := None)\<rparr>"

definition write_archive :: "string \<Rightarrow> zip_entry list \<Rightarrow> fs \<Rightarrow> fs" where
  "write_archive p entries s =
     s\<lparr>files := (files s)(p := None), archives := (archives s)(p \<mapsto> entries)\<rparr>"

text \<open>\<open>os.remove\<close>: refused by the system, or not a file, or removed.\<close>

definition os_remove :: "world \<Rightarrow> string \<Rightarrow> unit action" where
  "os_remove w p s =
     (case remove_error w p of
        Some e \<Rightarrow> (Inl e, s)
      | None \<Rightarrow>
          if files s p = None \<and> archives s p = None then (Inl (no_such_file p), s)
          else (Inr (), s\<lparr>files := (files s)(p := None), archives := (archives s)(p := None)\<rparr>))"

text \<open>\<open>os.makedirs(p, exist_ok=True)\<close>: nothing to do for a directory that exists.\<close>

definition makedirs :: "world \<Rightarrow> string \<Rightarrow> unit action" where
  "makedirs w p s =
     (if p \<in> dirs s then (Inr (), s)
      else (case makedirs_error w p of
              Some e \<Rightarrow> (Inl e, s)
            | None \<Rightarrow> (Inr (), s\<lparr>dirs := insert p (dirs s)\<rparr>)))"

section \<open>The stages of one conversion\<close>

text \<open>Lines 39-53.\<close>

definition geotiff_to_png :: "world \<Rightarrow> string \<Rightarrow> string \<Rightarrow> nat \<Rightarrow> unit action" where
  "geotiff_to_png w tiff_path png_path zlevel s =
     (case gdal_Open w tiff_path of
        None \<Rightarrow> (Inl (Raise Exception (''Unable to open input GeoTIFF: '' @ tiff_path)), s)
      | Some ds \<Rightarrow>
          (let s1 = fold (\<lambda>(p, bytes). write_file p bytes) (gdal_sidecars w tiff_path) s
           in case gdal_Translate w tiff_path zlevel of
                Inl e \<Rightarrow> (Inl e, s1)
              | Inr None \<Rightarrow> (Inr (), s1)
              | Inr (Some png) \<Rightarrow> (Inr (), write_file png_path png s1)))"

text \<open>Lines 55-64: open the image, quantize it, save it over itself.\<close>

definition quantize_png_with_pillow :: "world \<Rightarrow> string \<Rightarrow> nat \<Rightarrow> unit action" where
  "quantize_png_with_pillow w png_path colors s =
     (case files s png_path of
        None \<Rightarrow> (Inl (no_such_file png_path), s)
      | Some img \<Rightarrow>
          (case pillow_quantize w img colors of
             Inl e \<Rightarrow> (Inl e, s)
           | Inr quantized \<Rightarrow> (Inr (), write_file png_path quantized s)))"

text \<open>Lines 118-140.\<close>

definition kml_content :: "world \<Rightarrow> string \<Rightarrow> real \<Rightarrow> real \<Rightarrow> real \<Rightarrow> real \<Rightarrow> string" where
  "kml_content w image_name north south east west =
     concat (map (\<lambda>l. l @ [CHR 0x0A])
       [''<?xml version='' @ [CHR 0x22] @ ''1.0'' @ [CHR 0x22] @ '' encoding='' @ [CHR 0x22]
          @ ''UTF-8'' @ [CHR 0x22] @ ''?>'',
        ''<kml xmlns='' @ [CHR 0x22] @ ''http://www.opengis.net/kml/2.2'' @ [CHR 0x22] @ ''>'',
        ''  <GroundOverlay>'',
        ''    <name>'' @ image_name @ ''</name>'',
        ''    <Icon>'',
        ''      <href>'' @ image_name @ ''</href>'',
        ''    </Icon>'',
        ''    <color>ffffffff</color>'',
        ''    <LatLonBox>'',
        ''      <north>'' @ float_str w north @ ''</north>'',
        ''      <south>'' @ float_str w south @ ''</south>'',
        ''      <east>'' @ float_str w east @ ''</east>'',
        ''      <west>'' @ float_str w west @ ''</west>'',
        ''    </LatLonBox>'',
        ''  </GroundOverlay>'',
        ''</kml>''])"

definition generate_kml ::
    "world \<Rightarrow> string \<Rightarrow> real \<Rightarrow> real \<Rightarrow> real \<Rightarrow> real \<Rightarrow> string \<Rightarrow> unit action" where
  "generate_kml w image_name north south east west kml_path s =
     (case write_error w kml_path of
        Some e \<Rightarrow> (Inl e, s)
      | None \<Rightarrow> (Inr (), write_file kml_path (kml_content w image_name north south east west) s))"

text \<open>
  Lines 142-148. Opening the archive for writing creates it empty; each \<open>zf.write\<close>
  reads a file and appends one entry with the archive's compression; a raise leaves the
  entries written so far.
\<close>

definition create_kmz :: "world \<Rightarrow> string \<Rightarrow> string \<Rightarrow> string \<Rightarrow> unit action" where
  "create_kmz w kml_path image_path kmz_path s =
     (case write_error w kmz_path of
        Some e \<Rightarrow> (Inl e, s)
      | None \<Rightarrow>
          (case files s kml_path of
             None \<Rightarrow> (Inl (no_such_file kml_path), write_archive kmz_path [] s)
           | Some kml \<Rightarrow>
               (let doc = \<lparr>arcname = ''doc.kml'', compress_type = ZIP_DEFLATED, payload = kml\<rparr>
                in case files s image_path of
                     None \<Rightarrow> (Inl (no_such_file image_path), write_archive kmz_path [doc] s)
                   | Some img \<Rightarrow>
                       (Inr (),
                        write_archive kmz_path
                          [doc, \<lparr>arcname = basename image_path, compress_type = ZIP_DEFLATED,
                                 payload = img\<rparr>] s))))"

text \<open>Lines 150-167: both removals are inside \<open>try ... except Exception: pass\<close>.\<close>

definition remove_quietly :: "world \<Rightarrow> string \<Rightarrow> fs \<Rightarrow> fs" where
  "remove_quietly w p s = (if exists_path s p then snd (os_remove w p s) else s)"

definition cleanup_aux_xml :: "world \<Rightarrow> string \<Rightarrow> fs \<Rightarrow> fs" where
  "cleanup_aux_xml w tif_path s =
     (let s1 = remove_quietly w (tif_path @ ''.aux.xml'') s
      in if endswith (lower tif_path) ''.tif''
         then remove_quietly w (take (length tif_path - 4) tif_path @ ''.tiff.aux.xml'') s1
         else s1)"

text \<open>Lines 180-189: the body of the \<open>try\<close>.\<close>

definition stages :: "world \<Rightarrow> string \<Rightarrow> string \<Rightarrow> string \<Rightarrow> string \<Rightarrow> unit action" where
  "stages w tif_path kmz_path png_path kml_path =
     seq (geotiff_to_png w tif_path png_path 9) (\<lambda>_.
     seq (quantize_png_with_pillow w png_path 256) (\<lambda>_.
     seq (\<lambda>s. (get_geotiff_bounds (gdal_Open w) (TransformPoint w) tif_path, s))
       (\<lambda>(north, south, east, west).
     seq (generate_kml w (basename png_path) north south east west kml_path) (\<lambda>_.
     create_kmz w kml_path png_path kmz_path))))"

text \<open>
  Lines 169-196. The temporary directory is made before the \<open>try\<close> and removed after
  the \<open>finally\<close>: a raise of either leaves the function as a raise.
\<close>

definition rmtree :: "string \<Rightarrow> fs \<Rightarrow> fs" where
  "rmtree d s =
     s\<lparr>files := (\<lambda>p. if startswith p (d @ ''/'') then None else files s p),
       archives := (\<lambda>p. if startswith p (d @ ''/'') then None else archives s p),
       dirs := dirs s - {d}\<rparr>"

text \<open>Lines 179-195: \<open>try\<close>, \<open>except Exception\<close>, \<open>finally\<close>. The block never raises.\<close>

definition try_block ::
    "world \<Rightarrow> string \<Rightarrow> string \<Rightarrow> string \<Rightarrow> string \<Rightarrow> fs \<Rightarrow> (string \<times> string) \<times> fs" where
  "try_block w tif_path kmz_path png_path kml_path s =
     (let (r, s1) = stages w tif_path kmz_path png_path kml_path s;
          result = (case r of
                      Inr u \<Rightarrow> (tif_path, ''OK'')
                    | Inl e \<Rightarrow> (tif_path, ''FAILED: '' @ str_exc e))
      in (result, cleanup_aux_xml w tif_path s1))"

definition convert_tif_to_kmz_task :: "world \<Rightarrow> string \<times> string \<Rightarrow> (string \<times> string) action" where
  "convert_tif_to_kmz_task w args s =
     (case args of (tif_path, kmz_path) \<Rightarrow>
        (let base = fst (splitext (basename tif_path))
         in case mkdtemp w of
              Inl e \<Rightarrow> (Inl e, s)
            | Inr tmpdir \<Rightarrow>
                (let png_path = join tmpdir (base @ ''.png'');
                     kml_path = join tmpdir ''doc.kml'';
                     (result, s2) =
                        try_block w tif_path kmz_path png_path kml_path
                          (s\<lparr>dirs := insert tmpdir (dirs s)\<rparr>)
                 in case rmtree_error w of
                      Some e \<Rightarrow> (Inl e, s2)
                    | None \<Rightarrow> (Inr result, rmtree tmpdir s2))))"

section \<open>The tree walker (gather_tif_tasks)\<close>

text \<open>
  \<open>os.walk\<close> visits the root, then each subdirectory in turn, and gives every directory's
  path, built from the root's by \<open>join\<close>, with the names of its files. The model's walk
  also carries the names joined so far: \<open>os.path.relpath\<close> of the directory's path
  against the root is those names joined by the separator, and a dot at the root. The
  tree is the one the walk can list, taken before the output directories are made.
\<close>

fun walk :: "string \<Rightarrow> string list \<Rightarrow> tree \<Rightarrow> (string \<times> string list \<times> string list) list" where
  "walk dirpath rel (Dir subs filenames) =
     (dirpath, rel, filenames)
       # concat (map (\<lambda>sub. walk (join dirpath (fst sub)) (rel @ [fst sub]) (snd sub)) subs)"

fun relpath :: "string list \<Rightarrow> string" where
  "relpath [] = ''.''"
| "relpath [d] = d"
| "relpath (d # ds) = d @ ''/'' @ relpath ds"

definition is_tif :: "string \<Rightarrow> bool" where
  "is_tif fname = (endswith (lower fname) ''.tif'' \<or> endswith (lower fname) ''.tiff'')"

text \<open>Lines 209-214, for the files of one directory.\<close>

definition file_tasks :: "string \<Rightarrow> string \<Rightarrow> string list \<Rightarrow> (string \<times> string) list" where
  "file_tasks dirpath out_dir filenames =
     map (\<lambda>fname. (join dirpath fname, join out_dir (fst (splitext fname) @ ''.kmz'')))
       (filter is_tif filenames)"

text \<open>Lines 204-214: a refusal of \<open>makedirs\<close> ends the walk as a raise.\<close>

fun gather_loop ::
    "world \<Rightarrow> string \<Rightarrow> (string \<times> string list \<times> string list) list \<Rightarrow> (string \<times> string) list
      \<Rightarrow> (string \<times> string) list action" where
  "gather_loop w root_out [] tasks s = (Inr tasks, s)"
| "gather_loop w root_out ((dirpath, rel, filenames) # rest) tasks s =
     (let rel_dir = relpath rel; out_dir = join root_out rel_dir
      in case makedirs w out_dir s of
           (Inl e, s') \<Rightarrow> (Inl e, s')
         | (Inr u, s') \<Rightarrow>
             gather_loop w root_out rest (tasks @ file_tasks dirpath out_dir filenames) s')"

definition gather_tif_tasks :: "world \<Rightarrow> string \<Rightarrow> string \<Rightarrow> (string \<times> string) list action" where
  "gather_tif_tasks w root_in root_out s =
     gather_loop w root_out
       (case listing w root_in of None \<Rightarrow> [] | Some t \<Rightarrow> walk root_in [] t) [] s"

text \<open>
  The destination as the specification words it: the name without its suffix
  \<open>.tif\<close> or \<open>.tiff\<close>, then \<open>.kmz\<close>, at the same relative place under the output root.
\<close>

definition strip_tif_suffix :: "string \<Rightarrow> string" where
  "strip_tif_suffix fname =
     (if endswith (lower fname) ''.tiff'' then take (length fname - 5) fname
      else take (length fname - 4) fname)"

definition mirrored_kmz :: "string \<Rightarrow> string list \<Rightarrow> string \<Rightarrow> string" where
  "mirrored_kmz root_out rel fname =
     join (join root_out (relpath rel)) (strip_tif_suffix fname @ ''.kmz'')"

text \<open>The destination's name as the code forms it, spelled out without \<open>splitext\<close>.\<close>

definition kmz_name :: "string \<Rightarrow> string" where
  "kmz_name fname =
     (if list_all (\<lambda>c. c = CHR ''.'') (strip_tif_suffix fname) then fname
      else strip_tif_suffix fname) @ ''.kmz''"

fun tree_names :: "tree \<Rightarrow> string list" where
  "tree_names (Dir subs filenames) =
     filenames @ concat (map (\<lambda>sub. fst sub # tree_names (snd sub)) subs)"


section \<open>The worker pool and the main program\<close>

text \<open>
  The executor of the interpreter's library, as its contract describes it: the submitted
  calls wait in a queue in submission order, at most \<open>max_workers\<close> of them run at a
  time, and any running call may be the next to finish. A schedule is the list of these
  events; \<open>completed\<close> is the order in which \<open>as_completed\<close> hands the futures over.
  Calls are named by their position in the task list.
\<close>

record pool =
  queued :: "nat list"
  running :: "nat list"
  completed :: "nat list"

datatype event = Start | Finish nat

definition submitted :: "nat \<Rightarrow> pool" where
  "submitted n = \<lparr>queued = [0..<n], running = [], completed = []\<rparr>"

fun step :: "nat \<Rightarrow> event \<Rightarrow> pool \<Rightarrow> pool option" where
  "step max_workers Start p =
     (case queued p of
        [] \<Rightarrow> None
      | k # ks \<Rightarrow>
          if length (running p) < max_workers
          then Some (p\<lparr>queued := ks, running := running p @ [k]\<rparr>)
          else None)"
| "step max_workers (Finish k) p =
     (if k \<in> set (running p)
      then Some (p\<lparr>running := remove1 k (running p), completed := completed p @ [k]\<rparr>)
      else None)"

fun run :: "nat \<Rightarrow> event list \<Rightarrow> pool \<Rightarrow> pool option" where
  "run max_workers [] p = Some p"
| "run max_workers (e # es) p =
     (case step max_workers e p of None \<Rightarrow> None | Some q \<Rightarrow> run max_workers es q)"

definition drained :: "pool \<Rightarrow> bool" where
  "drained p = (queued p = [] \<and> running p = [])"

text \<open>Line 232.\<close>

definition result_line :: "nat \<Rightarrow> nat \<Rightarrow> string \<Rightarrow> string \<Rightarrow> string" where
  "result_line i tot tif_path status =
     ''['' @ str_nat i @ ''/'' @ str_nat tot @ ''] '' @ tif_path @ '': '' @ status"

text \<open>
  Lines 230-232 over the futures in completion order: \<open>future.result()\<close> gives the
  call's value or raises what the call raised, and nothing around the loop catches it.
\<close>

fun report ::
    "nat \<Rightarrow> nat \<Rightarrow> (pyexc + string \<times> string) list \<Rightarrow> string list \<Rightarrow> pyexc option \<times> string list" where
  "report i tot [] out = (None, out)"
| "report i tot (Inl e # rest) out = (Some e, out)"
| "report i tot (Inr (tif_path, status) # rest) out =
     report (i + 1) tot rest (out @ [result_line i tot tif_path status])"

text \<open>
  Lines 228-232. Call \<open>k\<close> runs in a worker process against the world and the file
  system it finds there, \<open>env k\<close>; each call is taken as one step on that file system.
\<close>

definition future_result ::
    "(nat \<Rightarrow> world \<times> fs) \<Rightarrow> (string \<times> string) list \<Rightarrow> nat \<Rightarrow> pyexc + string \<times> string" where
  "future_result env tasks k = fst (convert_tif_to_kmz_task (fst (env k)) (tasks ! k) (snd (env k)))"

definition batch ::
    "(nat \<Rightarrow> world \<times> fs) \<Rightarrow> (string \<times> string) list \<Rightarrow> nat list \<Rightarrow> pyexc option \<times> string list" where
  "batch env tasks order = report 1 (length tasks) (map (future_result env tasks) order) []"

record outcome =
  stdout :: "string list"
  uncaught :: "pyexc option"
  exit_code :: nat

text \<open>Lines 217-232: an exception nobody catches ends the interpreter with exit code 1.\<close>

definition main ::
    "string list \<Rightarrow> world \<Rightarrow> fs \<Rightarrow> (nat \<Rightarrow> world \<times> fs) \<Rightarrow> nat list \<Rightarrow> outcome" where
  "main argv w s env order =
     (if length argv \<noteq> 3
      then (case argv of
              [] \<Rightarrow>
                \<lparr>stdout = [], uncaught = Some (Raise IndexError ''list index out of range''),
                 exit_code = 1\<rparr>
            | argv0 # args \<Rightarrow>
                \<lparr>stdout = [''Usage: python '' @ argv0 @ '' input_root_folder output_root_folder''],
                 uncaught = None, exit_code = 1\<rparr>)
      else (let root_in = argv ! 1; root_out = argv ! 2
            in case gather_tif_tasks w root_in root_out s of
                 (Inl e, s') \<Rightarrow> \<lparr>stdout = [], uncaught = Some e, exit_code = 1\<rparr>
               | (Inr tasks, s') \<Rightarrow>
                   (let found = ''[+] Found '' @ str_nat (length tasks)
                                  @ '' GeoTIFF files to process.''
                    in case batch env tasks order of
                         (Some e, lines) \<Rightarrow>
                           \<lparr>stdout = found # lines, uncaught = Some e, exit_code = 1\<rparr>
                       | (None, lines) \<Rightarrow>
                           \<lparr>stdout = found # lines, uncaught = None, exit_code = 0\<rparr>)))"

section \<open>Concrete rasters\<close>

text \<open>The raster of the specification's example: geographic, origin (0,0), pixel size (1,-1), 10 by 10.\<close>

definition geographic_ds :: dataset where
  "geographic_ds =
     \<lparr>GetGeoTransform = \<lparr>gt0 = 0, gt1 = 1, gt2 = 0, gt3 = 0, gt4 = 0, gt5 = - 1\<rparr>,
      RasterXSize = 10, RasterYSize = 10, IsProjected = False,
      GetAuthorityCode = Inr None\<rparr>"


definition mercator_ct :: transform_point where
  "mercator_ct x y = Inr (if x = 0 then 0 else 10, if y = 0 then 0 else - 20, 0)"

section \<open>Concrete worlds\<close>

definition demo_tree :: tree where
  "demo_tree =
     Dir [(''A'', Dir [(''B'', Dir [] [])] [''x.TIF'', ''notes.txt''])] [''.tif'', ''a.b.tiff'']"

definition empty_fs :: fs where
  "empty_fs = \<lparr>files = Map.empty, archives = Map.empty, dirs = {}\<rparr>"

text \<open>
  A world where everything works: every source opens as the geographic raster, the
  raster library leaves a sidecar beside it, and the tree above lies under \<open>in\<close>.
\<close>

definition good_world :: world where
  "good_world =
     \<lparr>gdal_Open = (\<lambda>p. Some geographic_ds),
      gdal_Translate = (\<lambda>p zlevel. Inr (Some ''PNG'')),
      gdal_sidecars = (\<lambda>p. [(p @ ''.aux.xml'', ''<PAMDataset/>'')]),
      pillow_quantize = (\<lambda>img colors. Inr ''PNG8''),
      TransformPoint = mercator_ct,
      float_str = (\<lambda>r. if r = 0 then ''0.0'' else if r = 10 then ''10.0''
                         else if r = - 10 then ''-10.0'' else ''nan''),
      write_error = (\<lambda>p. None),
      remove_error = (\<lambda>p. None),
      makedirs_error = (\<lambda>p. None),
      mkdtemp = Inr ''/tmp/tmpk3'',
      rmtree_error = None,
      listing = (\<lambda>p. if p = ''in'' then Some demo_tree else None)\<rparr>"

text \<open>The same world with a source no raster can be read from.\<close>

definition unreadable_world :: world where
  "unreadable_world = good_world\<lparr>gdal_Open := (\<lambda>p. None)\<rparr>"

text \<open>The same world with no room for a temporary directory.\<close>

definition no_tmp_world :: world where
  "no_tmp_world =
     good_world\<lparr>mkdtemp := Inl (Raise OSError ''[Errno 28] No space left on device'')\<rparr>"

(*DEFS-END*)

section \<open>Properties of the bounds resolver\<close>







section \<open>Properties of the dataset handle\<close>

lemma transform_corners_total:
  "(\<forall>x y. \<exists>r. ct x y = Inr r) \<Longrightarrow> \<exists>l. transform_corners ct cs = Inr l \<and> length l = length cs"
proof (induction cs)
  case Nil
  then show ?case by simp
next
  case (Cons c cs)
  obtain x y where c: "c = (x, y)" by (cases c)
  from Cons.prems obtain lon lat z where r: "ct x y = Inr (lon, lat, z)"
    by (metis prod_cases3)
  from Cons obtain l where "transform_corners ct cs = Inr l" "length l = length cs" by blast
  with c r show ?case by simp
qed

lemma latlon_box_nonempty: "l \<noteq> [] \<Longrightarrow> \<exists>b. latlon_box l = Inr b"
  by (cases l) (auto simp: latlon_box_def and_then_def Let_def split: prod.splits)

text \<open>
  C10. When the source cannot be opened, the bounds extraction raises the AttributeError
  of reading an attribute of None, where the decode stage raises its own descriptive
  exception; the bounds extraction returns a box only for a source that opens, and for
  a source that opens (and a transformation that does not raise) it does return one.
\<close>

theorem bounds_open_unguarded:
  "(gdal_Open w p = None \<longrightarrow>
      get_geotiff_bounds (gdal_Open w) ct p =
        Inl (Raise AttributeError
               (quoted ''NoneType'' @ '' object has no attribute '' @ quoted ''GetGeoTransform''))
      \<and> fst (geotiff_to_png w p png_path zlevel s) =
        Inl (Raise Exception (''Unable to open input GeoTIFF: '' @ p)))
   \<and> (get_geotiff_bounds (gdal_Open w) ct p = Inr b \<longrightarrow> gdal_Open w p \<noteq> None)
   \<and> (gdal_Open w p \<noteq> None \<and> (\<forall>x y. \<exists>r. ct x y = Inr r) \<longrightarrow>
        (\<exists>box. get_geotiff_bounds (gdal_Open w) ct p = Inr box))"
proof -
  have a: "get_geotiff_bounds (gdal_Open w) ct p =
        Inl (Raise AttributeError
               (quoted ''NoneType'' @ '' object has no attribute '' @ quoted ''GetGeoTransform''))"
    and a': "fst (geotiff_to_png w p png_path zlevel s) =
        Inl (Raise Exception (''Unable to open input GeoTIFF: '' @ p))"
    if "gdal_Open w p = None"
    using that by (simp_all add: get_geotiff_bounds_def geotiff_to_png_def)
  have b: "gdal_Open w p \<noteq> None" if "get_geotiff_bounds (gdal_Open w) ct p = Inr b"
    using that by (auto simp: get_geotiff_bounds_def split: option.splits)
  have c: "\<exists>box. get_geotiff_bounds (gdal_Open w) ct p = Inr box"
    if o: "gdal_Open w p \<noteq> None" and t: "\<forall>x y. \<exists>r. ct x y = Inr r"
  proof -
    from o obtain ds where ds: "gdal_Open w p = Some ds" by auto
    have n: "corners ds \<noteq> []" by (simp add: corners_def Let_def)
    show ?thesis
    proof (cases "epsg ds = Some ''3857''")
      case True
      from transform_corners_total [OF t, of "corners ds"] obtain l
        where l: "transform_corners ct (corners ds) = Inr l" "length l = length (corners ds)"
        by blast
      with n have "l \<noteq> []" by auto
      from latlon_box_nonempty [OF this] obtain box where "latlon_box l = Inr box" ..
      with ds True l show ?thesis
        by (intro exI [of _ box]) (simp add: get_geotiff_bounds_def and_then_def)
    next
      case False
      have "passthrough_corners (corners ds) \<noteq> []"
        using n by (simp add: passthrough_corners_def)
      from latlon_box_nonempty [OF this] obtain box
        where "latlon_box (passthrough_corners (corners ds)) = Inr box" ..
      with ds False show ?thesis
        by (intro exI [of _ box]) (simp add: get_geotiff_bounds_def and_then_def)
    qed
  qed
  show ?thesis using a a' b c by blast
qed

theorem bounds_open_unguarded_witness:
  "get_geotiff_bounds (gdal_Open unreadable_world) mercator_ct ''in/a.tif'' =
     Inl (Raise AttributeError
            (quoted ''NoneType'' @ '' object has no attribute '' @ quoted ''GetGeoTransform''))
   \<and> fst (geotiff_to_png unreadable_world ''in/a.tif'' ''/tmp/tmpk3/a.png'' 9 empty_fs) =
     Inl (Raise Exception ''Unable to open input GeoTIFF: in/a.tif'')
   \<and> (\<exists>box. get_geotiff_bounds (gdal_Open good_world) mercator_ct ''in/a.tif'' = Inr box)"
proof -
  have u: "gdal_Open unreadable_world ''in/a.tif'' = None"
    by (simp add: unreadable_world_def)
  have g: "gdal_Open good_world ''in/a.tif'' \<noteq> None"
    by (simp add: good_world_def)
  have t: "\<forall>x y. \<exists>r. mercator_ct x y = Inr r"
    by (simp add: mercator_ct_def)
  show ?thesis
    using bounds_open_unguarded [of unreadable_world "''in/a.tif''" mercator_ct "''/tmp/tmpk3/a.png''" 9 empty_fs]
      bounds_open_unguarded [of good_world "''in/a.tif''" mercator_ct]
      u g t
    by simp
qed

section \<open>Properties of the path functions\<close>

lemma lower_dot_tif: "lower ''.tif'' = ''.tif''" "lower ''.tiff'' = ''.tiff''"
  by (simp_all add: lower_def lower_char_def)

text \<open>
  C9. A file named exactly \<open>.tif\<close> or \<open>.tiff\<close> is matched as a raster; \<open>splitext\<close>
  gives it no extension, so the destination's name is the whole name with \<open>.kmz\<close>
  appended: \<open>.tif.kmz\<close> and \<open>.tiff.kmz\<close>.
\<close>

theorem dotfile_tif_appends_kmz:
  "is_tif ''.tif'' \<and> is_tif ''.tiff''
   \<and> splitext ''.tif'' = (''.tif'', []) \<and> splitext ''.tiff'' = (''.tiff'', [])
   \<and> file_tasks dirpath out_dir [''.tif''] = [(join dirpath ''.tif'', join out_dir ''.tif.kmz'')]
   \<and> file_tasks dirpath out_dir [''.tiff''] = [(join dirpath ''.tiff'', join out_dir ''.tiff.kmz'')]"
proof -
  have t: "is_tif ''.tif''" "is_tif ''.tiff''"
    by (simp_all add: is_tif_def lower_dot_tif endswith_def)
  have s: "splitext ''.tif'' = (''.tif'', [])" "splitext ''.tiff'' = (''.tiff'', [])"
    by (simp_all add: splitext_def)
  show ?thesis
    using t s by (simp add: file_tasks_def)
qed











section \<open>Properties of the bundle packager\<close>




section \<open>Properties of the single-item converter\<close>

lemma geotiff_to_png_ignore_remove_error:
  "geotiff_to_png (w\<lparr>remove_error := refuse\<rparr>) a b z = geotiff_to_png w a b z"
  by (rule ext) (simp add: geotiff_to_png_def split: option.splits sum.splits)

lemma quantize_ignore_remove_error:
  "quantize_png_with_pillow (w\<lparr>remove_error := refuse\<rparr>) a n = quantize_png_with_pillow w a n"
  by (rule ext) (simp add: quantize_png_with_pillow_def split: option.splits sum.splits)

lemma generate_kml_ignore_remove_error:
  "generate_kml (w\<lparr>remove_error := refuse\<rparr>) i n so e we k = generate_kml w i n so e we k"
  by (rule ext) (simp add: generate_kml_def kml_content_def split: option.splits)

lemma create_kmz_ignore_remove_error:
  "create_kmz (w\<lparr>remove_error := refuse\<rparr>) a b c = create_kmz w a b c"
  by (rule ext) (simp add: create_kmz_def split: option.splits)

lemma stages_ignore_remove_error:
  "stages (w\<lparr>remove_error := refuse\<rparr>) tif_path kmz_path png_path kml_path =
   stages w tif_path kmz_path png_path kml_path"
  by (simp add: stages_def geotiff_to_png_ignore_remove_error quantize_ignore_remove_error
        generate_kml_ignore_remove_error create_kmz_ignore_remove_error)

lemma os_remove_gone:
  "remove_error w p = None \<Longrightarrow>
     files (snd (os_remove w p s)) p = None \<and> archives (snd (os_remove w p s)) p = None"
  by (simp add: os_remove_def)

lemma os_remove_keeps_none:
  "files s q = None \<Longrightarrow> files (snd (os_remove w p s)) q = None"
  "archives s q = None \<Longrightarrow> archives (snd (os_remove w p s)) q = None"
  by (cases "remove_error w p"; simp add: os_remove_def)+

lemma os_remove_refused:
  "remove_error w p = Some e \<Longrightarrow> os_remove w p s = (Inl e, s)"
  by (simp add: os_remove_def)

lemma remove_quietly_gone:
  "remove_error w p = None \<Longrightarrow>
     files (remove_quietly w p s) p = None \<and> archives (remove_quietly w p s) p = None"
  using os_remove_gone [of w p s]
  by (simp add: remove_quietly_def exists_path_def)

lemma remove_quietly_keeps_none:
  "files s q = None \<Longrightarrow> files (remove_quietly w p s) q = None"
  "archives s q = None \<Longrightarrow> archives (remove_quietly w p s) q = None"
  by (simp_all add: remove_quietly_def os_remove_keeps_none)

lemma remove_quietly_refused:
  "remove_error w p \<noteq> None \<Longrightarrow> remove_quietly w p s = s"
  by (auto simp: remove_quietly_def os_remove_refused)

lemma cleanup_aux_xml_gone:
  "remove_error w (tif_path @ ''.aux.xml'') = None \<Longrightarrow>
     files (cleanup_aux_xml w tif_path s) (tif_path @ ''.aux.xml'') = None
     \<and> archives (cleanup_aux_xml w tif_path s) (tif_path @ ''.aux.xml'') = None"
  by (simp add: cleanup_aux_xml_def Let_def remove_quietly_gone remove_quietly_keeps_none)

lemma cleanup_aux_xml_refused:
  "(\<forall>p. remove_error w p \<noteq> None) \<Longrightarrow> cleanup_aux_xml w tif_path s = s"
  by (simp add: cleanup_aux_xml_def Let_def remove_quietly_refused)

lemma stages_unreadable:
  "stages unreadable_world tif_path kmz_path png_path kml_path s =
     (Inl (Raise Exception (''Unable to open input GeoTIFF: '' @ tif_path)), s)"
  by (simp add: stages_def seq_def geotiff_to_png_def unreadable_world_def)

text \<open>
  C3. Whatever the five stages raise is caught: the block returns the source path with
  \<open>FAILED:\<close> and the exception's message, and \<open>OK\<close> when no stage raises. In both
  cases the state it leaves is the sidecar cleanup applied to the state the stages left.
  The block's result is the same whether or not the removals are refused; when the
  removal is not refused the sidecar is gone afterwards, and when every removal is
  refused the state is the one the stages left. The converter returns the block's
  result when its temporary directory is made and released.
\<close>

theorem try_block_catches_and_cleans:
  "(stages w tif_path kmz_path png_path kml_path s = (Inl e, s1) \<longrightarrow>
      try_block w tif_path kmz_path png_path kml_path s =
        ((tif_path, ''FAILED: '' @ str_exc e), cleanup_aux_xml w tif_path s1))
   \<and> (stages w tif_path kmz_path png_path kml_path s = (Inr u, s1) \<longrightarrow>
      try_block w tif_path kmz_path png_path kml_path s =
        ((tif_path, ''OK''), cleanup_aux_xml w tif_path s1))
   \<and> fst (try_block (w\<lparr>remove_error := refuse\<rparr>) tif_path kmz_path png_path kml_path s) =
       fst (try_block w tif_path kmz_path png_path kml_path s)
   \<and> (remove_error w (tif_path @ ''.aux.xml'') = None \<longrightarrow>
        files (snd (try_block w tif_path kmz_path png_path kml_path s)) (tif_path @ ''.aux.xml'') = None)
   \<and> ((\<forall>p. remove_error w p \<noteq> None) \<longrightarrow>
        snd (try_block w tif_path kmz_path png_path kml_path s) =
        snd (stages w tif_path kmz_path png_path kml_path s))
   \<and> (mkdtemp w = Inr tmpdir \<and> rmtree_error w = None \<longrightarrow>
        fst (convert_tif_to_kmz_task w (tif_path, kmz_path) s) =
        Inr (fst (try_block w tif_path kmz_path
                    (join tmpdir (fst (splitext (basename tif_path)) @ ''.png''))
                    (join tmpdir ''doc.kml'') (s\<lparr>dirs := insert tmpdir (dirs s)\<rparr>))))"
proof (intro conjI impI)
  show "fst (try_block (w\<lparr>remove_error := refuse\<rparr>) tif_path kmz_path png_path kml_path s) =
       fst (try_block w tif_path kmz_path png_path kml_path s)"
    by (simp add: try_block_def stages_ignore_remove_error split: prod.splits)
next
  assume "remove_error w (tif_path @ ''.aux.xml'') = None"
  then show "files (snd (try_block w tif_path kmz_path png_path kml_path s)) (tif_path @ ''.aux.xml'') = None"
    by (simp add: try_block_def cleanup_aux_xml_gone split: prod.splits)
next
  assume "\<forall>p. remove_error w p \<noteq> None"
  then show "snd (try_block w tif_path kmz_path png_path kml_path s) =
        snd (stages w tif_path kmz_path png_path kml_path s)"
    by (simp add: try_block_def cleanup_aux_xml_refused split: prod.splits)
next
  assume "mkdtemp w = Inr tmpdir \<and> rmtree_error w = None"
  then show "fst (convert_tif_to_kmz_task w (tif_path, kmz_path) s) =
        Inr (fst (try_block w tif_path kmz_path
                    (join tmpdir (fst (splitext (basename tif_path)) @ ''.png''))
                    (join tmpdir ''doc.kml'') (s\<lparr>dirs := insert tmpdir (dirs s)\<rparr>)))"
    by (simp add: convert_tif_to_kmz_task_def Let_def split: prod.splits)
qed (simp_all add: try_block_def)

theorem try_block_catches_and_cleans_witness:
  "fst (try_block unreadable_world ''in/A/x.TIF'' ''out/A/x.kmz'' ''/tmp/tmpk3/x.png''
          ''/tmp/tmpk3/doc.kml'' empty_fs) =
     (''in/A/x.TIF'', ''FAILED: Unable to open input GeoTIFF: in/A/x.TIF'')
   \<and> files (snd (try_block good_world ''in/A/x.TIF'' ''out/A/x.kmz'' ''/tmp/tmpk3/x.png''
                   ''/tmp/tmpk3/doc.kml'' empty_fs)) ''in/A/x.TIF.aux.xml'' = None
   \<and> fst (convert_tif_to_kmz_task unreadable_world (''in/A/x.TIF'', ''out/A/x.kmz'') empty_fs) =
     Inr (''in/A/x.TIF'', ''FAILED: Unable to open input GeoTIFF: in/A/x.TIF'')"
proof -
  let ?T = "''in/A/x.TIF''" and ?K = "''out/A/x.kmz''"
  let ?P = "''/tmp/tmpk3/x.png''" and ?Q = "''/tmp/tmpk3/doc.kml''"
  let ?e = "Raise Exception (''Unable to open input GeoTIFF: '' @ ?T)"
  have a: "fst (try_block unreadable_world ?T ?K ?P ?Q empty_fs) = (?T, ''FAILED: '' @ str_exc ?e)"
    using try_block_catches_and_cleans [of unreadable_world ?T ?K ?P ?Q empty_fs ?e empty_fs]
      stages_unreadable [of ?T ?K ?P ?Q empty_fs]
    by simp
  have r: "remove_error good_world (?T @ ''.aux.xml'') = None"
    by (simp add: good_world_def)
  have b: "files (snd (try_block good_world ?T ?K ?P ?Q empty_fs)) (?T @ ''.aux.xml'') = None"
    using try_block_catches_and_cleans [of good_world ?T ?K ?P ?Q empty_fs] r by blast
  have m: "mkdtemp unreadable_world = Inr ''/tmp/tmpk3'' \<and> rmtree_error unreadable_world = None"
    by (simp add: unreadable_world_def good_world_def)
  have c: "fst (convert_tif_to_kmz_task unreadable_world (?T, ?K) empty_fs) =
        Inr (fst (try_block unreadable_world ?T ?K
                    (join ''/tmp/tmpk3'' (fst (splitext (basename ?T)) @ ''.png''))
                    (join ''/tmp/tmpk3'' ''doc.kml'')
                    (empty_fs\<lparr>dirs := insert ''/tmp/tmpk3'' (dirs empty_fs)\<rparr>)))"
    using try_block_catches_and_cleans [of unreadable_world ?T ?K _ _ empty_fs _ _ _ _ "''/tmp/tmpk3''"] m
    by blast
  have d: "fst (try_block unreadable_world ?T ?K P Q s) = (?T, ''FAILED: '' @ str_exc ?e)" for P Q s
    by (simp add: try_block_def stages_unreadable)
  show ?thesis
    using a b c d by simp
qed

end
